theory Spec2Isabelle
  imports Complex_Main "HOL-Library.Word"
begin

unbundle bit_operations_syntax

section \<open>The Coyote 2.0 driver (coyote2.py)\<close>

text \<open>
  The driver talks to a two-channel device over a BLE GATT link. Python's unbounded
  integers are \<open>int\<close>, \<open>bytes\<close> values are lists of 8-bit words, exceptions are the
  left summand of a sum type, and the object state of \<open>Coyote2\<close> is passed explicitly.
\<close>

subsection \<open>Constants\<close>

definition BLE_DEVICE_NAME :: string where
  "BLE_DEVICE_NAME = ''D-LAB ESTIM01''"

definition SERVICE_A_UUID :: string where
  "SERVICE_A_UUID = ''955A180A-0FE2-F5AA-A094-84B8D4F3E8AD''"

definition BATTERY_LEVEL_UUID :: string where
  "BATTERY_LEVEL_UUID = ''955A1500-0FE2-F5AA-A094-84B8D4F3E8AD''"

definition PWM_AB2_UUID :: string where
  "PWM_AB2_UUID = ''955A1504-0FE2-F5AA-A094-84B8D4F3E8AD''"

definition PWM_A34_UUID :: string where
  "PWM_A34_UUID = ''955A1505-0FE2-F5AA-A094-84B8D4F3E8AD''"

definition PWM_B34_UUID :: string where
  "PWM_B34_UUID = ''955A1506-0FE2-F5AA-A094-84B8D4F3E8AD''"

subsection \<open>Exceptions\<close>

text \<open>
  The four exception classes of the module, the built-in exceptions its statements can
  raise (\<open>assert\<close>, indexing, \<open>int.to_bytes\<close>, \<open>int()\<close> of a float, true division), and
  the failure of a transport-level connect.
\<close>

datatype error =
    AlreadyConnectedError
  | NotConnectedError
  | DeviceIsNotCoyote20Error
  | DeviceNotFoundError
  | AssertionError
  | IndexError
  | OverflowError
  | ValueError
  | ZeroDivisionError
  | TransportError

subsection \<open>Python floats\<close>

text \<open>
  A \<open>float\<close> is an IEEE 754 binary64 value: a rational number (the two zeros are not
  told apart, no operation below depends on the sign of zero), an infinity or a NaN.
  Arithmetic computes the exact result and rounds it to the nearest representable value,
  ties to the even mantissa.
\<close>

datatype pyfloat = Finite rat | PosInf | NegInf | NaN

definition round_half_even :: "rat \<Rightarrow> int" where
  "round_half_even q =
     (let f = \<lfloor>q\<rfloor>; d = q - of_int f
      in if d < 1 / 2 then f else if 1 / 2 < d then f + 1 else if even f then f else f + 1)"

text \<open>\<open>int.bit_length()\<close> for a positive integer.\<close>

function bit_length :: "int \<Rightarrow> nat" where
  "bit_length n = (if n \<le> 0 then 0 else Suc (bit_length (n div 2)))"
  by pat_completeness auto
termination
  by (relation "measure nat") auto

declare bit_length.simps [simp del]

definition pow2 :: "int \<Rightarrow> rat" where
  "pow2 k = (if 0 \<le> k then 2 ^ nat k else 1 / 2 ^ nat (- k))"

text \<open>
  For \<open>q > 0\<close> the exponent \<open>e\<close> with \<open>2 ^ e \<le> q < 2 ^ (e + 1)\<close>: the difference of the
  bit lengths of numerator and denominator, or one less.
\<close>

definition floor_log2 :: "rat \<Rightarrow> int" where
  "floor_log2 q =
     (let (a, b) = quotient_of q;
          d = int (bit_length a) - int (bit_length b)
      in if pow2 d \<le> q then d else d - 1)"

text \<open>
  Rounding to binary64: 53 bits of mantissa, the spacing never below \<open>2 ^ - 1074\<close>
  (subnormal numbers), and infinity when the rounded magnitude reaches \<open>2 ^ 1024\<close>,
  which happens when \<open>e\<close> is at least 1024, or \<open>e\<close> is 1023 and the mantissa rounds up to
  \<open>2 ^ 53\<close>.
\<close>

definition round_double :: "rat \<Rightarrow> pyfloat" where
  "round_double q =
     (if q = 0 then Finite 0
      else let e = floor_log2 \<bar>q\<bar>;
               k = max (e - 52) (- 1074);
               m = round_half_even (q / pow2 k)
           in if 1024 \<le> e \<or> (e = 1023 \<and> \<bar>m\<bar> = 2 ^ 53)
              then (if 0 < q then PosInf else NegInf)
              else Finite (of_int m * pow2 k))"

text \<open>\<open>a * b\<close> on floats.\<close>

fun float_mul :: "pyfloat \<Rightarrow> pyfloat \<Rightarrow> pyfloat" where
  "float_mul (Finite x) (Finite y) = round_double (x * y)"
| "float_mul NaN _ = NaN"
| "float_mul _ NaN = NaN"
| "float_mul (Finite x) PosInf = (if x = 0 then NaN else if 0 < x then PosInf else NegInf)"
| "float_mul (Finite x) NegInf = (if x = 0 then NaN else if 0 < x then NegInf else PosInf)"
| "float_mul PosInf (Finite y) = (if y = 0 then NaN else if 0 < y then PosInf else NegInf)"
| "float_mul NegInf (Finite y) = (if y = 0 then NaN else if 0 < y then NegInf else PosInf)"
| "float_mul PosInf PosInf = PosInf"
| "float_mul PosInf NegInf = NegInf"
| "float_mul NegInf PosInf = NegInf"
| "float_mul NegInf NegInf = PosInf"

text \<open>
  \<open>int(v)\<close> for a float: the integral part, that is rounding towards zero; an infinity
  raises \<open>OverflowError\<close> and a NaN raises \<open>ValueError\<close>.
\<close>

definition py_int :: "pyfloat \<Rightarrow> error + int" where
  "py_int v =
     (case v of
        Finite q \<Rightarrow> Inr (if q < 0 then - \<lfloor>- q\<rfloor> else \<lfloor>q\<rfloor>)
      | PosInf \<Rightarrow> Inl OverflowError
      | NegInf \<Rightarrow> Inl OverflowError
      | NaN \<Rightarrow> Inl ValueError)"

text \<open>
  The spec's words for the conversion from a float, "truncated toward zero": the floor
  of a value that is not negative, the ceiling of a negative one. The conversion that
  \<open>write_strength\<close> performs is compared with it below.
\<close>

definition toward_zero :: "rat \<Rightarrow> int" where
  "toward_zero x = (if 0 \<le> x then \<lfloor>x\<rfloor> else \<lceil>x\<rceil>)"

text \<open>
  \<open>a / b\<close> on integers: the correctly rounded quotient; \<open>ZeroDivisionError\<close> for a zero
  divisor and \<open>OverflowError\<close> when the quotient is too large for a float.
\<close>

definition int_truediv :: "int \<Rightarrow> int \<Rightarrow> error + pyfloat" where
  "int_truediv a b =
     (if b = 0 then Inl ZeroDivisionError
      else (case round_double (of_int a / of_int b) of
              Finite r \<Rightarrow> Inr (Finite r)
            | _ \<Rightarrow> Inl OverflowError))"

subsection \<open>Bytes and integers\<close>

type_synonym byte = "8 word"

text \<open>\<open>int.from_bytes(data, "little", signed=False)\<close>: defined for every length.\<close>

fun from_bytes_little :: "byte list \<Rightarrow> int" where
  "from_bytes_little [] = 0"
| "from_bytes_little (b # bs) = uint b + 256 * from_bytes_little bs"

text \<open>
  \<open>v.to_bytes(n, "little", signed=False)\<close>: raises \<open>OverflowError\<close> when \<open>v\<close> is
  negative or does not fit into \<open>n\<close> bytes.
\<close>

definition to_bytes_little :: "nat \<Rightarrow> int \<Rightarrow> error + byte list" where
  "to_bytes_little n v =
     (if v < 0 \<or> 256 ^ n \<le> v then Inl OverflowError
      else Inr (map (\<lambda>i. word_of_int (v div 256 ^ i)) [0..<n]))"

subsection \<open>The packed layouts\<close>

text \<open>
  The arithmetic of \<open>_get_real_strength\<close> (lines 100 to 104) on the payload read from
  the characteristic.
\<close>

definition unpack_real_strength :: "byte list \<Rightarrow> int \<times> int" where
  "unpack_real_strength data =
     (let data_int = from_bytes_little data;
          real_strength_a = drop_bit 13 data_int;
          real_strength_b_mask = 2047;
          real_strength_b = (drop_bit 2 data_int) AND real_strength_b_mask
      in (real_strength_a, real_strength_b))"

text \<open>The arithmetic of \<open>_write_real_strength\<close> (lines 113 to 118).\<close>

definition pack_real_strength :: "int \<Rightarrow> int \<Rightarrow> error + byte list" where
  "pack_real_strength real_strength_a real_strength_b =
     (let data_int = 0;
          data_int = data_int + real_strength_a;
          data_int = push_bit 11 data_int;
          data_int = data_int + real_strength_b;
          data_int = push_bit 2 data_int
      in to_bytes_little 3 data_int)"

text \<open>The arithmetic of \<open>__read_wave\<close> (lines 127 to 133).\<close>

definition unpack_wave :: "byte list \<Rightarrow> int \<times> int \<times> int" where
  "unpack_wave data =
     (let data_int = from_bytes_little data;
          x = drop_bit 19 data_int;
          y_mask = 1023;
          y = (drop_bit 9 data_int) AND y_mask;
          z_mask = 31;
          z = (drop_bit 2 data_int) AND z_mask
      in (x, y, z))"

text \<open>The arithmetic of \<open>__write_wave\<close> (lines 139 to 146).\<close>

definition pack_wave :: "int \<Rightarrow> int \<Rightarrow> int \<Rightarrow> error + byte list" where
  "pack_wave x y z =
     (let data_int = 0;
          data_int = data_int + x;
          data_int = push_bit 10 data_int;
          data_int = data_int + y;
          data_int = push_bit 5 data_int;
          data_int = data_int + z;
          data_int = push_bit 2 data_int
      in to_bytes_little 3 data_int)"

subsection \<open>The session object and the transport\<close>

text \<open>
  The BLE stack (the \<open>bleak\<close> library) is an external collaborator. Its handle object
  \<open>BleakClient\<close> is a record holding the address it was created for and the connection
  status it reports; the peer and the radio are the environment \<open>env\<close>: what a scan by
  name finds, whether a transport-level connect succeeds, the service identifiers the
  peer exposes, and the payload a read of a characteristic returns. The contract is the
  one the driver relies on: a successful \<open>connect()\<close> makes the handle report connected,
  \<open>disconnect()\<close> makes it report disconnected, and of the calls only \<open>connect()\<close> can
  fail.
\<close>

record handle =
  h_address :: "string option"
  h_connected :: bool

record env =
  scan :: "string \<Rightarrow> string option"
  connect_ok :: bool
  peer_services :: "string list"
  read_char :: "string \<Rightarrow> byte list"

text \<open>Every call that reaches the transport is logged, in order.\<close>

datatype call =
    Scan string
  | Connect
  | Disconnect
  | Read string
  | Write string "byte list"

text \<open>
  A \<open>Coyote2\<close> object: \<open>self.address\<close>, \<open>self.__client\<close> (\<open>None\<close> until the \<open>client\<close>
  property is first read), and the log of transport calls made through it.
\<close>

record session =
  address :: "string option"
  priv_client :: "handle option"
  calls :: "call list"

text \<open>\<open>Coyote2(address)\<close>.\<close>

definition init :: "string option \<Rightarrow> session" where
  "init a = \<lparr>address = a, priv_client = None, calls = []\<rparr>"

text \<open>
  A method is a function from the object state to a result, an exception or a value,
  and the state it leaves. Awaiting a coroutine runs it to completion, so a sequence of
  awaited calls is sequential composition; a raised exception skips the rest.
\<close>

type_synonym 'a action = "session \<Rightarrow> (error + 'a) \<times> session"

definition ret :: "'a \<Rightarrow> 'a action" where
  "ret x s = (Inr x, s)"

definition throw :: "error \<Rightarrow> 'a action" where
  "throw e s = (Inl e, s)"

definition bind :: "'a action \<Rightarrow> ('a \<Rightarrow> 'b action) \<Rightarrow> 'b action" where
  "bind m f s = (case m s of (Inl e, s') \<Rightarrow> (Inl e, s') | (Inr x, s') \<Rightarrow> f x s')"

definition log_call :: "call \<Rightarrow> unit action" where
  "log_call c s = (Inr (), s\<lparr>calls := calls s @ [c]\<rparr>)"

text \<open>The \<open>client\<close> property (lines 50 to 56): created on first access, then reused.\<close>

definition client :: "handle action" where
  "client s =
     (case priv_client s of
        None \<Rightarrow>
          (let h = \<lparr>h_address = address s, h_connected = False\<rparr>
           in (Inr h, s\<lparr>priv_client := Some h\<rparr>))
      | Some h \<Rightarrow> (Inr h, s))"

text \<open>The \<open>is_connected\<close> property (lines 58 to 60).\<close>

definition is_connected :: "bool action" where
  "is_connected = bind client (\<lambda>h. ret (h_connected h))"

text \<open>The methods of the handle, each reached through \<open>self.client\<close>.\<close>

definition client_connect :: "env \<Rightarrow> unit action" where
  "client_connect ev =
     bind client (\<lambda>h. bind (log_call Connect) (\<lambda>_.
       if connect_ok ev
       then (\<lambda>s. (Inr (), s\<lparr>priv_client := Some (h\<lparr>h_connected := True\<rparr>)\<rparr>))
       else throw TransportError))"

definition client_disconnect :: "unit action" where
  "client_disconnect =
     bind client (\<lambda>h. bind (log_call Disconnect) (\<lambda>_.
       (\<lambda>s. (Inr (), s\<lparr>priv_client := Some (h\<lparr>h_connected := False\<rparr>)\<rparr>))))"

definition client_services :: "env \<Rightarrow> string list action" where
  "client_services ev = bind client (\<lambda>_. ret (peer_services ev))"

definition read_gatt_char :: "env \<Rightarrow> string \<Rightarrow> byte list action" where
  "read_gatt_char ev uuid =
     bind client (\<lambda>_. bind (log_call (Read uuid)) (\<lambda>_. ret (read_char ev uuid)))"

definition write_gatt_char :: "string \<Rightarrow> byte list \<Rightarrow> unit action" where
  "write_gatt_char uuid data = bind client (\<lambda>_. log_call (Write uuid data))"

subsection \<open>Session management\<close>

text \<open>\<open>find_device\<close> (lines 43 to 48), when it is awaited.\<close>

definition find_device :: "env \<Rightarrow> bool action" where
  "find_device ev =
     bind (log_call (Scan BLE_DEVICE_NAME)) (\<lambda>_.
       case scan ev BLE_DEVICE_NAME of
         None \<Rightarrow> ret False
       | Some a \<Rightarrow> (\<lambda>s. (Inr True, s\<lparr>address := Some a\<rparr>)))"

text \<open>\<open>str.lower()\<close> on the ASCII text of an identifier.\<close>

definition lower_char :: "char \<Rightarrow> char" where
  "lower_char c =
     (let n = (of_char c :: nat) in if 65 \<le> n \<and> n \<le> 90 then char_of (n + 32) else c)"

definition lower :: "string \<Rightarrow> string" where
  "lower s = map lower_char s"

text \<open>
  The \<open>for ... else\<close> loop of \<open>connect\<close> (lines 67 to 72): \<open>True\<close> when the loop leaves
  by \<open>break\<close>, \<open>False\<close> when it runs to the end and the \<open>else\<close> branch is taken.
\<close>

fun services_loop :: "string list \<Rightarrow> bool" where
  "services_loop [] = False"
| "services_loop (uuid # rest) =
     (if uuid = lower SERVICE_A_UUID then True else services_loop rest)"

text \<open>\<open>disconnect\<close> (lines 74 and 75).\<close>

definition disconnect :: "unit action" where
  "disconnect = client_disconnect"

text \<open>\<open>connect\<close> (lines 62 to 72).\<close>

definition connect :: "env \<Rightarrow> unit action" where
  "connect ev =
     (\<lambda>s. if address s = None then throw AssertionError s
          else bind is_connected (\<lambda>c.
            if c then throw AlreadyConnectedError
            else bind (client_connect ev) (\<lambda>_.
              bind (client_services ev) (\<lambda>services.
                if services_loop services then ret ()
                else bind disconnect (\<lambda>_. throw DeviceIsNotCoyote20Error)))) s)"

text \<open>
  \<open>__aenter__\<close> (lines 77 to 82). Line 79 calls \<open>self.find_device()\<close> without awaiting
  it: \<open>found_device\<close> is bound to the coroutine object, whose body does not run, and
  line 80 tests the truth value of that object.
\<close>

datatype pyobject = Coroutine | Bool bool

fun truth :: "pyobject \<Rightarrow> bool" where
  "truth Coroutine = True"
| "truth (Bool b) = b"

definition aenter :: "env \<Rightarrow> unit action" where
  "aenter ev =
     (\<lambda>s. if address s = None
          then (let found_device = Coroutine
                in if \<not> truth found_device then throw DeviceNotFoundError s
                   else connect ev s)
          else connect ev s)"

text \<open>
  \<open>__aexit__\<close> (lines 84 and 85): awaits \<open>disconnect\<close> and returns \<open>None\<close>, whose truth
  value \<open>False\<close> is the result here.
\<close>

definition aexit :: "bool action" where
  "aexit = bind disconnect (\<lambda>_. ret False)"

text \<open>
  The statement \<open>async with coyote: body\<close> of a caller, as Python defines it: the body
  runs only when \<open>__aenter__\<close> returned; \<open>__aexit__\<close> runs when the body has returned or
  raised; an exception of the body is raised again after \<open>__aexit__\<close> unless that
  returned a true value; an exception of \<open>__aexit__\<close> itself replaces it.
\<close>

definition async_with :: "env \<Rightarrow> unit action \<Rightarrow> unit action" where
  "async_with ev body =
     bind (aenter ev) (\<lambda>_ s1.
       case body s1 of
         (Inr _, s2) \<Rightarrow> bind aexit (\<lambda>_. ret ()) s2
       | (Inl e, s2) \<Rightarrow>
           bind aexit (\<lambda>suppress. if suppress then ret () else throw e) s2)"

subsection \<open>Protocol operations\<close>

text \<open>\<open>__check_connection\<close> (lines 87 to 89).\<close>

definition check_connection :: "unit action" where
  "check_connection =
     bind is_connected (\<lambda>c. if \<not> c then throw NotConnectedError else ret ())"

text \<open>\<open>get_battery_level\<close> (lines 91 to 95).\<close>

definition get_battery_level :: "env \<Rightarrow> int action" where
  "get_battery_level ev =
     bind check_connection (\<lambda>_.
       bind (read_gatt_char ev BATTERY_LEVEL_UUID) (\<lambda>data.
         case data of
           [] \<Rightarrow> throw IndexError
         | battery_level # _ \<Rightarrow> ret (uint battery_level)))"

text \<open>\<open>_get_real_strength\<close> (lines 97 to 104).\<close>

definition get_real_strength :: "env \<Rightarrow> (int \<times> int) action" where
  "get_real_strength ev =
     bind check_connection (\<lambda>_.
       bind (read_gatt_char ev PWM_AB2_UUID) (\<lambda>data.
         ret (unpack_real_strength data)))"

text \<open>\<open>_write_real_strength\<close> (lines 110 to 119): the assertion precedes the check.\<close>

definition write_real_strength :: "int \<Rightarrow> int \<Rightarrow> unit action" where
  "write_real_strength real_strength_a real_strength_b =
     (if \<not> (0 \<le> real_strength_a \<and> real_strength_a \<le> 2047
            \<and> 0 \<le> real_strength_b \<and> real_strength_b \<le> 2047)
      then throw AssertionError
      else bind check_connection (\<lambda>_.
        case pack_real_strength real_strength_a real_strength_b of
          Inl e \<Rightarrow> throw e
        | Inr data \<Rightarrow> write_gatt_char PWM_AB2_UUID data))"

text \<open>
  \<open>get_strength\<close> (lines 106 to 108) and \<open>write_strength\<close> (lines 121 and 122). In
  \<open>strength_a * 7\<close> the integer 7 is converted to the float 7.0; both arguments of the
  call on line 122 are evaluated before \<open>_write_real_strength\<close> runs.
\<close>

definition get_strength :: "env \<Rightarrow> (pyfloat \<times> pyfloat) action" where
  "get_strength ev =
     bind (get_real_strength ev) (\<lambda>(real_strength_a, real_strength_b).
       case int_truediv real_strength_a 7 of
         Inl e \<Rightarrow> throw e
       | Inr fa \<Rightarrow>
           (case int_truediv real_strength_b 7 of
              Inl e \<Rightarrow> throw e
            | Inr fb \<Rightarrow> ret (fa, fb)))"

definition write_strength :: "pyfloat \<Rightarrow> pyfloat \<Rightarrow> unit action" where
  "write_strength strength_a strength_b =
     (case py_int (float_mul strength_a (Finite 7)) of
        Inl e \<Rightarrow> throw e
      | Inr real_strength_a \<Rightarrow>
          (case py_int (float_mul strength_b (Finite 7)) of
             Inl e \<Rightarrow> throw e
           | Inr real_strength_b \<Rightarrow> write_real_strength real_strength_a real_strength_b))"

text \<open>\<open>__read_wave\<close> (lines 124 to 133).\<close>

definition read_wave :: "env \<Rightarrow> string \<Rightarrow> (int \<times> int \<times> int) action" where
  "read_wave ev uuid =
     bind check_connection (\<lambda>_.
       bind (read_gatt_char ev uuid) (\<lambda>data.
         ret (unpack_wave data)))"

text \<open>\<open>__write_wave\<close> (lines 135 to 147).\<close>

definition write_wave :: "string \<Rightarrow> int \<Rightarrow> int \<Rightarrow> int \<Rightarrow> unit action" where
  "write_wave uuid x y z =
     (if \<not> (0 \<le> x \<and> x \<le> 31 \<and> 0 \<le> y \<and> y \<le> 1023 \<and> 0 \<le> z \<and> z \<le> 31)
      then throw AssertionError
      else bind is_connected (\<lambda>c.
        if \<not> c then throw NotConnectedError
        else (case pack_wave x y z of
                Inl e \<Rightarrow> throw e
              | Inr data \<Rightarrow> write_gatt_char uuid data)))"

text \<open>The public wave operations (lines 149 to 159).\<close>

definition read_wave_a :: "env \<Rightarrow> (int \<times> int \<times> int) action" where
  "read_wave_a ev = read_wave ev PWM_B34_UUID"

definition write_wave_a :: "int \<Rightarrow> int \<Rightarrow> int \<Rightarrow> unit action" where
  "write_wave_a x y z = write_wave PWM_B34_UUID x y z"

definition read_wave_b :: "env \<Rightarrow> (int \<times> int \<times> int) action" where
  "read_wave_b ev = read_wave ev PWM_A34_UUID"

definition write_wave_b :: "int \<Rightarrow> int \<Rightarrow> int \<Rightarrow> unit action" where
  "write_wave_b x y z = write_wave PWM_A34_UUID x y z"

subsection \<open>Connection status and sample sessions\<close>

text \<open>The session is live when its handle exists and reports connected.\<close>

definition live :: "session \<Rightarrow> bool" where
  "live s = (case priv_client s of None \<Rightarrow> False | Some h \<Rightarrow> h_connected h)"

text \<open>
  A peer that exposes the primary service, accepts the connect and answers every read
  with the payload \<open>data\<close>.
\<close>

definition peer :: "byte list \<Rightarrow> env" where
  "peer data =
     \<lparr>scan = (\<lambda>_. None), connect_ok = True,
      peer_services = [lower SERVICE_A_UUID], read_char = (\<lambda>_. data)\<rparr>"

text \<open>The session that \<open>connect\<close> leaves after \<open>Coyote2("C1:A2:B3:D4:E5:F6")\<close>.\<close>

definition linked :: session where
  "linked =
     \<lparr>address = Some ''C1:A2:B3:D4:E5:F6'',
      priv_client = Some \<lparr>h_address = Some ''C1:A2:B3:D4:E5:F6'', h_connected = True\<rparr>,
      calls = [Connect]\<rparr>"

text \<open>A peer that accepts the connect but does not expose the primary service.\<close>

definition stranger :: env where
  "stranger =
     \<lparr>scan = (\<lambda>_. None), connect_ok = True,
      peer_services = [''0000180a-0000-1000-8000-00805f9b34fb''], read_char = (\<lambda>_. [])\<rparr>"

text \<open>
  An operation is refused when it raises \<open>NotConnectedError\<close> and the log of transport
  calls is what it was before.
\<close>

definition refused :: "'a action \<Rightarrow> session \<Rightarrow> bool" where
  "refused m s = (fst (m s) = Inl NotConnectedError \<and> calls (snd (m s)) = calls s)"

section \<open>Properties\<close>

subsection \<open>Auxiliary facts\<close>

lemmas action_defs = ret_def throw_def bind_def log_call_def client_def is_connected_def
  client_connect_def client_disconnect_def client_services_def read_gatt_char_def
  write_gatt_char_def disconnect_def check_connection_def Let_def

lemma upt3: "[0..<3] = [0, Suc 0, 2]"
  by (simp add: upt_rec numeral_3_eq_3)

lemma uint_byte: "uint (word_of_int x :: byte) = x mod 256"
  by (simp add: uint_word_of_int)

lemma and_2047: "(x::int) AND 2047 = x mod 2048"
  using take_bit_eq_mask [of 11 x] by (simp add: take_bit_eq_mod mask_eq_exp_minus_1)

lemma and_1023: "(x::int) AND 1023 = x mod 1024"
  using take_bit_eq_mask [of 10 x] by (simp add: take_bit_eq_mod mask_eq_exp_minus_1)

lemma and_31: "(x::int) AND 31 = x mod 32"
  using take_bit_eq_mask [of 5 x] by (simp add: take_bit_eq_mod mask_eq_exp_minus_1)

lemma linked_reachable:
  "connect (peer []) (init (Some ''C1:A2:B3:D4:E5:F6'')) = (Inr (), linked)"
  by (simp add: connect_def init_def peer_def linked_def action_defs)

lemma live_linked: "live linked"
  by (simp add: live_def linked_def)

lemma pack_wave_1_0_0: "pack_wave 1 0 0 = Inr [0, 0, 2]"
  by (simp add: pack_wave_def to_bytes_little_def upt3 push_bit_eq_mult)

lemma unpack_wave_0_0_2: "unpack_wave [0, 0, 2] = (0, 256, 0)"
  by (simp add: unpack_wave_def drop_bit_eq_div and_1023 and_31)

lemma from_bytes_3:
  assumes "length data = 3"
  shows "0 \<le> from_bytes_little data \<and> from_bytes_little data < 16777216"
proof -
  obtain b0 b1 b2 where d: "data = [b0, b1, b2]"
    using assms by (auto simp: length_Suc_conv numeral_3_eq_3)
  have "uint b0 < 256" "uint b1 < 256" "uint b2 < 256" "0 \<le> uint b0" "0 \<le> uint b1" "0 \<le> uint b2"
    using uint_bounded [of b0] uint_bounded [of b1] uint_bounded [of b2] by simp_all
  then show ?thesis using d by simp
qed


lemma unpack_real_strength_eq:
  "unpack_real_strength data =
     (from_bytes_little data div 8192, from_bytes_little data div 4 mod 2048)"
  by (simp add: unpack_real_strength_def and_2047 drop_bit_eq_div Let_def)

lemma unpack_wave_eq:
  "unpack_wave data =
     (from_bytes_little data div 524288, from_bytes_little data div 512 mod 1024,
      from_bytes_little data div 4 mod 32)"
  by (simp add: unpack_wave_def and_1023 and_31 drop_bit_eq_div Let_def)

lemma unpack_real_strength_range:
  assumes "length data = 3"
  shows "\<exists>a b. unpack_real_strength data = (a, b) \<and> 0 \<le> a \<and> a \<le> 2047 \<and> 0 \<le> b \<and> b \<le> 2047"
proof -
  define v where "v = from_bytes_little data"
  have "0 \<le> v" "v < 16777216"
    using from_bytes_3 [OF assms] by (simp_all add: v_def)
  then have "0 \<le> v div 8192" "v div 8192 \<le> 2047" "0 \<le> v div 4 mod 2048"
      "v div 4 mod 2048 \<le> 2047"
    by simp_all
  then show ?thesis
    unfolding unpack_real_strength_eq v_def by blast
qed

lemma unpack_wave_range:
  assumes "length data = 3"
  shows "\<exists>x y z. unpack_wave data = (x, y, z)
           \<and> 0 \<le> x \<and> x \<le> 31 \<and> 0 \<le> y \<and> y \<le> 1023 \<and> 0 \<le> z \<and> z \<le> 31"
proof -
  define v where "v = from_bytes_little data"
  have "0 \<le> v" "v < 16777216"
    using from_bytes_3 [OF assms] by (simp_all add: v_def)
  then have "0 \<le> v div 524288" "v div 524288 \<le> 31" "0 \<le> v div 512 mod 1024"
      "v div 512 mod 1024 \<le> 1023" "0 \<le> v div 4 mod 32" "v div 4 mod 32 \<le> 31"
    by simp_all
  then show ?thesis
    unfolding unpack_wave_eq v_def by blast
qed


lemma client_live: "live s \<Longrightarrow> snd (client s) = s"
  by (cases "priv_client s") (simp_all add: live_def client_def)

lemma calls_client: "calls (snd (client s)) = calls s"
  by (cases "priv_client s") (simp_all add: client_def Let_def)

lemma address_client: "address (snd (client s)) = address s"
  by (cases "priv_client s") (simp_all add: client_def Let_def)

lemma live_client: "live (snd (client s)) = live s"
  by (cases "priv_client s") (simp_all add: client_def live_def Let_def)

lemma is_connected_eq: "is_connected s = (Inr (live s), snd (client s))"
  by (cases "priv_client s") (simp_all add: is_connected_def client_def live_def bind_def ret_def Let_def)

lemma check_connection_eq:
  "check_connection s =
     (if live s then (Inr (), s) else (Inl NotConnectedError, snd (client s)))"
  by (simp add: check_connection_def bind_def [of is_connected] is_connected_eq ret_def throw_def
      client_live)

lemma read_gatt_char_live:
  "live s \<Longrightarrow> read_gatt_char ev uuid s =
     (Inr (read_char ev uuid), s\<lparr>calls := calls s @ [Read uuid]\<rparr>)"
  by (cases "priv_client s") (simp_all add: live_def read_gatt_char_def client_def bind_def ret_def log_call_def)

lemma write_gatt_char_live:
  "live s \<Longrightarrow> write_gatt_char uuid data s =
     (Inr (), s\<lparr>calls := calls s @ [Write uuid data]\<rparr>)"
  by (cases "priv_client s") (simp_all add: live_def write_gatt_char_def client_def bind_def log_call_def)

lemma get_real_strength_eq:
  "get_real_strength ev s =
     (if live s
      then (Inr (unpack_real_strength (read_char ev PWM_AB2_UUID)),
            s\<lparr>calls := calls s @ [Read PWM_AB2_UUID]\<rparr>)
      else (Inl NotConnectedError, snd (client s)))"
  by (simp add: get_real_strength_def bind_def [of check_connection]
      bind_def [of "read_gatt_char ev uuid" for uuid] check_connection_eq read_gatt_char_live ret_def)

lemma read_wave_eq:
  "read_wave ev uuid s =
     (if live s
      then (Inr (unpack_wave (read_char ev uuid)), s\<lparr>calls := calls s @ [Read uuid]\<rparr>)
      else (Inl NotConnectedError, snd (client s)))"
  by (simp add: read_wave_def bind_def [of check_connection]
      bind_def [of "read_gatt_char ev uuid" for uuid] check_connection_eq read_gatt_char_live ret_def)

lemma get_battery_level_eq:
  "get_battery_level ev s =
     (if live s
      then (case read_char ev BATTERY_LEVEL_UUID of
              [] \<Rightarrow> Inl IndexError
            | battery_level # _ \<Rightarrow> Inr (uint battery_level),
            s\<lparr>calls := calls s @ [Read BATTERY_LEVEL_UUID]\<rparr>)
      else (Inl NotConnectedError, snd (client s)))"
  by (simp add: get_battery_level_def bind_def [of check_connection]
      bind_def [of "read_gatt_char ev uuid" for uuid] check_connection_eq read_gatt_char_live
      ret_def throw_def split: list.splits)


lemma three_bytes_value:
  fixes v :: int
  assumes "0 \<le> v" "v < 16777216"
  shows "v mod 256 + 256 * (v div 256 mod 256 + 256 * (v div 65536 mod 256)) = v"
proof -
  have d: "v div 65536 = v div 256 div 256"
    by (simp add: zdiv_zmult2_eq)
  have "v div 65536 < 256" "0 \<le> v div 65536"
    using assms by simp_all
  then have m: "v div 65536 mod 256 = v div 256 div 256"
    using d by simp
  have "v div 256 mod 256 + 256 * (v div 256 div 256) = v div 256"
    by simp
  then show ?thesis
    using m by simp
qed

lemma from_bytes_to_bytes:
  assumes "0 \<le> v" "v < 16777216"
  shows "\<exists>data. to_bytes_little 3 v = Inr data \<and> length data = 3 \<and> from_bytes_little data = v"
  using assms three_bytes_value [OF assms]
  by (simp add: to_bytes_little_def upt3 uint_byte)

lemma pack_real_strength_eq:
  "pack_real_strength a b = to_bytes_little 3 (8192 * a + 4 * b)"
  by (simp add: pack_real_strength_def push_bit_eq_mult Let_def mult.commute)

lemma pack_wave_eq:
  "pack_wave x y z = to_bytes_little 3 (131072 * x + 128 * y + 4 * z)"
  by (simp add: pack_wave_def push_bit_eq_mult Let_def mult.commute)

lemma pack_real_strength_ok:
  assumes "0 \<le> a" "a \<le> 2047" "0 \<le> b" "b \<le> 2047"
  shows "\<exists>data. pack_real_strength a b = Inr data \<and> length data = 3
           \<and> unpack_real_strength data = (a, b)"
proof -
  have "0 \<le> 8192 * a + 4 * b" "8192 * a + 4 * b < 16777216"
    using assms by simp_all
  then obtain data where d: "to_bytes_little 3 (8192 * a + 4 * b) = Inr data" "length data = 3"
      "from_bytes_little data = 8192 * a + 4 * b"
    using from_bytes_to_bytes by blast
  have "(8192 * a + 4 * b) div 8192 = a" "(8192 * a + 4 * b) div 4 mod 2048 = b"
    using assms by simp_all
  then show ?thesis
    using d by (simp add: pack_real_strength_eq unpack_real_strength_eq)
qed

lemma pack_wave_ok:
  assumes "0 \<le> x" "x \<le> 31" "0 \<le> y" "y \<le> 1023" "0 \<le> z" "z \<le> 31"
  shows "\<exists>data. pack_wave x y z = Inr data \<and> length data = 3"
proof -
  have "0 \<le> 131072 * x + 128 * y + 4 * z" "131072 * x + 128 * y + 4 * z < 16777216"
    using assms by simp_all
  then show ?thesis
    using from_bytes_to_bytes unfolding pack_wave_eq by blast
qed

lemma write_real_strength_eq:
  "write_real_strength a b s =
     (if \<not> (0 \<le> a \<and> a \<le> 2047 \<and> 0 \<le> b \<and> b \<le> 2047) then (Inl AssertionError, s)
      else if \<not> live s then (Inl NotConnectedError, snd (client s))
      else (case pack_real_strength a b of
              Inl e \<Rightarrow> (Inl e, s)
            | Inr data \<Rightarrow> (Inr (), s\<lparr>calls := calls s @ [Write PWM_AB2_UUID data]\<rparr>)))"
  by (simp add: write_real_strength_def bind_def [of check_connection] check_connection_eq
      write_gatt_char_live throw_def split: sum.splits)

lemma write_wave_eq:
  "write_wave uuid x y z s =
     (if \<not> (0 \<le> x \<and> x \<le> 31 \<and> 0 \<le> y \<and> y \<le> 1023 \<and> 0 \<le> z \<and> z \<le> 31)
      then (Inl AssertionError, s)
      else if \<not> live s then (Inl NotConnectedError, snd (client s))
      else (case pack_wave x y z of
              Inl e \<Rightarrow> (Inl e, s)
            | Inr data \<Rightarrow> (Inr (), s\<lparr>calls := calls s @ [Write uuid data]\<rparr>)))"
  by (simp add: write_wave_def bind_def [of is_connected] is_connected_eq client_live
      write_gatt_char_live throw_def split: sum.splits)

lemma services_loop_eq: "services_loop xs = (lower SERVICE_A_UUID \<in> set xs)"
  by (induction xs) auto

lemma disconnect_props:
  "\<exists>s'. disconnect s = (Inr (), s') \<and> \<not> live s' \<and> calls s' = calls s @ [Disconnect]
        \<and> address s' = address s"
  by (cases "priv_client s") (simp_all add: action_defs live_def)

lemma connect_live:
  assumes "address s \<noteq> None" "live s"
  shows "connect ev s = (Inl AlreadyConnectedError, s)"
  using assms
  by (simp add: connect_def bind_def [of is_connected] is_connected_eq client_live throw_def)

lemma connect_rejects:
  assumes "address s \<noteq> None" "\<not> live s" "connect_ok ev"
    and "lower SERVICE_A_UUID \<notin> set (peer_services ev)"
  shows "\<exists>s'. connect ev s = (Inl DeviceIsNotCoyote20Error, s') \<and> \<not> live s'
           \<and> calls s' = calls s @ [Connect, Disconnect]"
  using assms
  by (cases "priv_client s") (simp_all add: connect_def services_loop_eq live_def action_defs)

lemma connect_accepts:
  assumes "address s \<noteq> None" "\<not> live s" "connect_ok ev"
    and "lower SERVICE_A_UUID \<in> set (peer_services ev)"
  shows "\<exists>s'. connect ev s = (Inr (), s') \<and> live s' \<and> calls s' = calls s @ [Connect]"
  using assms
  by (cases "priv_client s") (simp_all add: connect_def services_loop_eq live_def action_defs)

lemma aexit_props:
  "\<exists>s'. aexit s = (Inr False, s') \<and> \<not> live s' \<and> calls s' = calls s @ [Disconnect]"
  using disconnect_props [of s] by (auto simp: aexit_def bind_def ret_def)

lemma lower_service:
  "lower SERVICE_A_UUID = ''955a180a-0fe2-f5aa-a094-84b8d4f3e8ad''"
  by code_simp

lemma aenter_linked:
  "aenter (peer []) (init (Some ''C1:A2:B3:D4:E5:F6'')) = (Inr (), linked)"
  by (simp add: aenter_def linked_reachable)

lemma write_wave_a_32: "write_wave_a 32 0 0 s = (Inl AssertionError, s)"
  by (simp add: write_wave_a_def write_wave_eq)

lemma float_to_raw_1: "py_int (float_mul (Finite 1) (Finite 7)) = Inr 7"
  by code_simp

lemma float_to_raw_half: "py_int (float_mul (Finite (1 / 2)) (Finite 7)) = Inr 3"
  by code_simp

lemma raw_to_float_7: "int_truediv 7 7 = Inr (Finite 1)"
  by code_simp

lemma unpack_28_224_0: "unpack_real_strength [28, 224, 0] = (7, 7)"
  by (simp add: unpack_real_strength_eq)

lemma py_int_truncates:
  "\<exists>t. py_int (Finite q) = Inr t \<and> \<bar>of_int t\<bar> \<le> \<bar>q\<bar> \<and> \<bar>q\<bar> < \<bar>of_int t\<bar> + 1 \<and> 0 \<le> of_int t * q"
proof (cases "q < 0")
  case True
  define n where "n = \<lfloor>- q\<rfloor>"
  have n: "of_int n \<le> - q" "- q < of_int n + 1"
    using floor_correct [of "- q"] by (simp_all add: n_def)
  have "0 \<le> n"
    using True by (simp add: n_def)
  then have r: "(0 :: rat) \<le> of_int n"
    by simp
  have p: "py_int (Finite q) = Inr (- n)"
    using True by (simp add: py_int_def n_def)
  have a: "\<bar>of_int (- n) :: rat\<bar> = of_int n" "\<bar>q\<bar> = - q"
    using r True by simp_all
  have "0 \<le> of_int n * (- q)"
    using r True by (intro mult_nonneg_nonneg) simp_all
  then have m: "0 \<le> of_int (- n) * q"
    by simp
  show ?thesis
    using p a n m by (intro exI [of _ "- n"]) (simp only: simp_thms)
next
  case False
  define n where "n = \<lfloor>q\<rfloor>"
  have n: "of_int n \<le> q" "q < of_int n + 1"
    using floor_correct [of q] by (simp_all add: n_def)
  have "0 \<le> n"
    using False by (simp add: n_def)
  then have r: "(0 :: rat) \<le> of_int n"
    by simp
  have p: "py_int (Finite q) = Inr n"
    using False by (simp add: py_int_def n_def)
  have a: "\<bar>of_int n :: rat\<bar> = of_int n" "\<bar>q\<bar> = q"
    using r False by simp_all
  have m: "0 \<le> of_int n * q"
    using r False by (intro mult_nonneg_nonneg) simp_all
  show ?thesis
    using p a n m by (intro exI [of _ n]) (simp only: simp_thms)
qed

lemma write_strength_1_half: "write_strength (Finite 1) (Finite (1 / 2)) s = write_real_strength 7 3 s"
  unfolding write_strength_def float_to_raw_1 float_to_raw_half by simp

lemma get_strength_7_7: "fst (get_strength (peer [28, 224, 0]) linked) = Inr (Finite 1, Finite 1)"
  by (simp add: get_strength_def bind_def [of "get_real_strength ev" for ev] get_real_strength_eq
      live_linked peer_def unpack_28_224_0 raw_to_float_7 ret_def)

lemma refused_read:
  assumes "\<not> live s"
  shows "refused (get_battery_level ev) s" "refused (get_real_strength ev) s"
    "refused (read_wave ev uuid) s"
  using assms
  by (simp_all add: refused_def get_battery_level_eq get_real_strength_eq read_wave_eq
      calls_client)

lemma refused_get_strength:
  assumes "\<not> live s"
  shows "refused (get_strength ev) s"
  using assms
  by (simp add: refused_def get_strength_def bind_def [of "get_real_strength ev"]
      get_real_strength_eq calls_client)

lemma refused_write:
  assumes "\<not> live s"
  shows "0 \<le> a \<and> a \<le> 2047 \<and> 0 \<le> b \<and> b \<le> 2047 \<Longrightarrow> refused (write_real_strength a b) s"
    and "0 \<le> x \<and> x \<le> 31 \<and> 0 \<le> y \<and> y \<le> 1023 \<and> 0 \<le> z \<and> z \<le> 31 \<Longrightarrow>
      refused (write_wave uuid x y z) s"
  using assms
  by (simp_all add: refused_def write_real_strength_eq write_wave_eq calls_client)

lemma refused_write_strength:
  assumes "\<not> live s"
    and "py_int (float_mul fa (Finite 7)) = Inr a" "py_int (float_mul fb (Finite 7)) = Inr b"
    and "0 \<le> a \<and> a \<le> 2047 \<and> 0 \<le> b \<and> b \<le> 2047"
  shows "refused (write_strength fa fb) s"
proof -
  have "write_strength fa fb s = write_real_strength a b s"
    unfolding write_strength_def assms(2,3) by simp
  then show ?thesis
    using refused_write(1) [OF assms(1,4)] by (simp add: refused_def)
qed

lemma pow2_powi: "pow2 k = 2 powi k"
  by (simp add: pow2_def power_int_def power_one_over inverse_eq_divide)

lemma bit_length_bounds:
  "0 < n \<Longrightarrow> 2 ^ (bit_length n - 1) \<le> n \<and> n < 2 ^ bit_length n"
proof (induction n rule: bit_length.induct)
  case (1 n)
  show ?case
  proof (cases "n = 1")
    case True
    have "bit_length 1 = 1"
      by (simp add: bit_length.simps [of 1] bit_length.simps [of 0])
    then show ?thesis using True by simp
  next
    case False
    then have h: "0 < n div 2" using "1.prems" by simp
    have n: "\<not> n \<le> 0" using "1.prems" by simp
    have ih: "2 ^ (bit_length (n div 2) - 1) \<le> n div 2 \<and> n div 2 < 2 ^ bit_length (n div 2)"
      using "1.IH" [OF n h] .
    have pos: "0 < bit_length (n div 2)"
      using h by (simp add: bit_length.simps [of "n div 2"])
    have bl: "bit_length n = Suc (bit_length (n div 2))"
      using n by (simp add: bit_length.simps [of n])
    have e: "2 ^ bit_length (n div 2) = 2 * (2::int) ^ (bit_length (n div 2) - 1)"
      using pos by (cases "bit_length (n div 2)") simp_all
    have "2 * (n div 2) \<le> n" "n < 2 * (n div 2) + 2"
      by simp_all
    then show ?thesis
      using ih e by (simp add: bl)
  qed
qed

lemma bit_length_bounds_rat:
  assumes "0 < n"
  shows "2 powi (int (bit_length n) - 1) \<le> (of_int n :: rat)"
    and "(of_int n :: rat) < 2 powi (int (bit_length n))"
proof -
  have pos: "0 < bit_length n"
    using assms by (simp add: bit_length.simps [of n])
  have a: "(of_int (2 ^ (bit_length n - 1)) :: rat) \<le> of_int n"
    using bit_length_bounds [OF assms] by (simp only: of_int_le_iff)
  have b: "int (bit_length n) - 1 = int (bit_length n - 1)"
    using pos by simp
  show "2 powi (int (bit_length n) - 1) \<le> (of_int n :: rat)"
    using a unfolding b by (simp only: of_int_power of_int_numeral power_int_of_nat)
  have "(of_int n :: rat) < of_int (2 ^ bit_length n)"
    using bit_length_bounds [OF assms] by (simp only: of_int_less_iff)
  then show "(of_int n :: rat) < 2 powi (int (bit_length n))"
    by (simp only: of_int_power of_int_numeral power_int_of_nat)
qed

lemma powi_add: "(2 :: rat) powi (a + b) = 2 powi a * 2 powi b"
  by (rule power_int_add) simp

lemma powi_pos: "0 < (2 :: rat) powi a"
  by simp

lemma powi_mono: "a \<le> b \<Longrightarrow> (2 :: rat) powi a \<le> 2 powi b"
  by (rule power_int_increasing) simp_all

lemma powi_less_cancel: "(2 :: rat) powi a < 2 powi b \<Longrightarrow> a < b"
proof (rule ccontr)
  assume l: "2 powi a < (2 :: rat) powi b" and "\<not> a < b"
  then have "b \<le> a" by simp
  then have "(2 :: rat) powi b \<le> 2 powi a" by (rule powi_mono)
  then show False using l by simp
qed

lemma floor_log2_bounds:
  assumes "0 < q"
  shows "2 powi (floor_log2 q) \<le> q" and "q < 2 powi (floor_log2 q + 1)"
proof -
  obtain a b where ab: "quotient_of q = (a, b)"
    by (cases "quotient_of q")
  have b: "0 < b"
    using ab by (rule quotient_of_denom_pos)
  have q: "q = of_int a / of_int b"
    using ab by (rule quotient_of_div)
  have a: "0 < a"
    using assms b q by (simp add: zero_less_divide_iff)
  define d where "d = int (bit_length a) - int (bit_length b)"
  have fl: "floor_log2 q = (if 2 powi d \<le> q then d else d - 1)"
    by (simp add: floor_log2_def ab d_def pow2_powi)
  have rb: "(0 :: rat) < of_int b"
    using b by simp
  have up: "q < 2 powi (d + 1)"
  proof -
    have "of_int a < (2 :: rat) powi (int (bit_length a))"
      using a by (rule bit_length_bounds_rat)
    also have "\<dots> = 2 powi (d + 1) * 2 powi (int (bit_length b) - 1)"
      by (simp add: d_def flip: powi_add)
    also have "\<dots> \<le> 2 powi (d + 1) * of_int b"
      using bit_length_bounds_rat(1) [OF b] by (intro mult_left_mono) simp_all
    finally show ?thesis
      using rb by (simp add: q pos_divide_less_eq)
  qed
  have lo: "2 powi (d - 1) \<le> q"
  proof -
    have "2 powi (d - 1) * of_int b \<le> 2 powi (d - 1) * (2 :: rat) powi (int (bit_length b))"
      using bit_length_bounds_rat(2) [OF b] by (intro mult_left_mono) simp_all
    also have "\<dots> = 2 powi (int (bit_length a) - 1)"
      using powi_add [of "d - 1" "int (bit_length b)"] by (simp add: d_def)
    also have "\<dots> \<le> of_int a"
      using a by (rule bit_length_bounds_rat)
    finally show ?thesis
      using rb by (simp add: q pos_le_divide_eq)
  qed
  show "2 powi (floor_log2 q) \<le> q"
    using lo by (simp add: fl)
  show "q < 2 powi (floor_log2 q + 1)"
    using up by (simp add: fl)
qed

lemma round_half_even_err: "\<bar>of_int (round_half_even x) - x\<bar> \<le> 1 / 2"
proof -
  define f where "f = \<lfloor>x\<rfloor>"
  define d where "d = x - of_int f"
  have "of_int f \<le> x" "x < of_int f + 1"
    using floor_correct [of x] by (simp_all add: f_def)
  then have d: "0 \<le> d" "d < 1"
    by (simp_all add: d_def)
  have x: "x = of_int f + d"
    by (simp add: d_def)
  have r: "round_half_even x =
      (if d < 1 / 2 then f else if 1 / 2 < d then f + 1 else if even f then f else f + 1)"
    by (simp add: round_half_even_def Let_def f_def d_def)
  consider "round_half_even x = f" "d \<le> 1 / 2" | "round_half_even x = f + 1" "1 / 2 \<le> d"
    using r by (cases "d < 1 / 2"; cases "1 / 2 < d"; cases "even f") simp_all
  then show ?thesis
  proof cases
    case 1
    then show ?thesis using d x by (simp add: abs_if)
  next
    case 2
    then show ?thesis using d x by (simp add: abs_if)
  qed
qed

lemma round_half_even_of_int: "round_half_even (of_int n) = n"
  by (simp add: round_half_even_def)

lemma round_double_unfold:
  assumes "q \<noteq> 0" and "e = floor_log2 \<bar>q\<bar>" and "e < 1023"
    and "k = max (e - 52) (- 1074)"
  shows "round_double q = Finite (of_int (round_half_even (q / 2 powi k)) * 2 powi k)"
  using assms by (simp add: round_double_def Let_def pow2_powi)

lemma round_double_exact:
  assumes "q = of_int M / 2 ^ j" and "\<bar>M\<bar> < 2 ^ 53" and "j \<le> 1074"
  shows "round_double q = Finite q"
proof (cases "q = 0")
  case True
  then show ?thesis by (simp add: round_double_def)
next
  case False
  define e where "e = floor_log2 \<bar>q\<bar>"
  define k where "k = max (e - 52) (- 1074)"
  have pos: "0 < \<bar>q\<bar>" using False by simp
  have "\<bar>q\<bar> = of_int \<bar>M\<bar> / 2 ^ j"
    by (simp add: assms(1))
  also have "\<dots> < of_int (2 ^ 53) / 2 ^ j"
    using assms(2) by (intro divide_strict_right_mono) (simp_all only: of_int_less_iff zero_less_power zero_less_numeral)
  also have "\<dots> = 2 powi (53 - int j)"
    using power_int_diff [of "2 :: rat" 53 "int j"] by simp
  finally have "\<bar>q\<bar> < 2 powi (53 - int j)" .
  then have "(2 :: rat) powi e < 2 powi (53 - int j)"
    using floor_log2_bounds(1) [OF pos] by (simp add: e_def)
  then have e: "e < 53 - int j"
    by (rule powi_less_cancel)
  then have k: "k \<le> - int j"
    using assms(3) by (simp add: k_def)
  define n where "n = nat (- int j - k)"
  have kn: "k = - int j - int n"
    using k by (simp add: n_def)
  have "(2 :: rat) powi (int (j + n)) = 2 ^ (j + n)"
    by (rule power_int_of_nat)
  moreover have "k = - int (j + n)"
    by (simp add: kn)
  ultimately have p: "(2 :: rat) powi k = 1 / (2 ^ j * 2 ^ n)"
    using power_int_minus [of "2 :: rat" "int (j + n)"]
    by (simp only: power_add inverse_eq_divide)
  have i: "q / 2 powi k = of_int (M * 2 ^ n)"
    by (simp add: p assms(1))
  have "round_double q = Finite (of_int (round_half_even (q / 2 powi k)) * 2 powi k)"
    using False e by (intro round_double_unfold [where e = e]) (simp_all add: e_def k_def)
  also have "of_int (round_half_even (q / 2 powi k)) * 2 powi k = q"
    unfolding i round_half_even_of_int by (simp add: p assms(1))
  finally show ?thesis .
qed

lemma round_double_err:
  assumes "2 powi (- 1022) \<le> \<bar>q\<bar>" and "\<bar>q\<bar> < 2 powi 1023"
  shows "\<exists>r. round_double q = Finite r \<and> \<bar>r - q\<bar> \<le> \<bar>q\<bar> / 2 ^ 53"
proof -
  have "(0 :: rat) < 2 powi (- 1022)" by (rule powi_pos)
  then have pos: "0 < \<bar>q\<bar>" using assms(1) by (rule less_le_trans)
  then have q0: "q \<noteq> 0" by simp
  define e where "e = floor_log2 \<bar>q\<bar>"
  define k where "k = e - 52"
  have b: "2 powi e \<le> \<bar>q\<bar>" "\<bar>q\<bar> < 2 powi (e + 1)"
    using floor_log2_bounds [OF pos] by (simp_all add: e_def)
  have "(2 :: rat) powi (- 1022) < 2 powi (e + 1)"
    using assms(1) b(2) by (rule le_less_trans)
  then have lo: "- 1022 < e + 1" by (rule powi_less_cancel)
  have "(2 :: rat) powi e < 2 powi 1023"
    using b(1) assms(2) by (rule le_less_trans)
  then have hi: "e < 1023" by (rule powi_less_cancel)
  have km: "k = max (e - 52) (- 1074)"
    using lo by (simp add: k_def)
  define m where "m = round_half_even (q / 2 powi k)"
  define r :: rat where "r = of_int m * 2 powi k"
  have rd: "round_double q = Finite r"
    unfolding r_def m_def using q0 hi km by (intro round_double_unfold [where e = e]) (simp_all add: e_def)
  have pk: "(0 :: rat) < 2 powi k" by (rule powi_pos)
  have "r - q = (of_int m - q / 2 powi k) * 2 powi k"
    using pk by (simp add: r_def field_simps)
  then have "\<bar>r - q\<bar> = \<bar>of_int m - q / 2 powi k\<bar> * 2 powi k"
    using pk by (simp add: abs_mult)
  also have "\<dots> \<le> 1 / 2 * 2 powi k"
    using round_half_even_err [of "q / 2 powi k"] pk
    by (intro mult_right_mono) (simp_all add: m_def)
  also have "1 / 2 * (2 :: rat) powi k = 2 powi e / 2 ^ 53"
    using power_int_diff [of "2 :: rat" e 53] power_int_diff [of "2 :: rat" e 52]
    by (simp add: k_def)
  also have "\<dots> \<le> \<bar>q\<bar> / 2 ^ 53"
    using b(1) by (intro divide_right_mono) simp_all
  finally show ?thesis
    using rd by blast
qed

lemma py_int_toward_zero: "py_int (Finite p) = Inr (toward_zero p)"
  by (simp add: py_int_def toward_zero_def ceiling_def)

lemma write_strength_finite:
  assumes "float_mul fa (Finite 7) = Finite pa" and "float_mul fb (Finite 7) = Finite pb"
  shows "write_strength fa fb s = write_real_strength (toward_zero pa) (toward_zero pb) s"
  unfolding write_strength_def assms py_int_toward_zero by simp

lemma float_mul_7_exact:
  assumes "\<bar>7 * M\<bar> < 2 ^ 53" and "j \<le> 1074"
  shows "float_mul (Finite (of_int M / 2 ^ j)) (Finite 7) = Finite (of_int M / 2 ^ j * 7)"
proof -
  have "(of_int M / 2 ^ j * 7 :: rat) = of_int (7 * M) / 2 ^ j"
    by simp
  then have "round_double (of_int M / 2 ^ j * 7) = Finite (of_int M / 2 ^ j * 7)"
    using assms by (rule round_double_exact)
  then show ?thesis
    by simp
qed

lemma float_mul_7_err:
  assumes "2 powi (- 1022) \<le> \<bar>q * 7\<bar>" and "\<bar>q * 7\<bar> < 2 powi 1023"
  shows "\<exists>p. float_mul (Finite q) (Finite 7) = Finite p \<and> \<bar>p - q * 7\<bar> \<le> \<bar>q * 7\<bar> / 2 ^ 53"
  using round_double_err [OF assms] by simp

lemma int_truediv_7:
  assumes "0 \<le> raw" and "raw \<le> 2047"
  shows "\<exists>r. int_truediv raw 7 = Inr (Finite r)
           \<and> \<bar>r - of_int raw / 7\<bar> \<le> of_int raw / 7 / 2 ^ 53
           \<and> (7 dvd raw \<longrightarrow> r = of_int raw / 7)"
proof (cases "raw = 0")
  case True
  then show ?thesis
    by (simp add: int_truediv_def round_double_def)
next
  case False
  define q :: rat where "q = of_int raw / 7"
  have r: "(1 :: rat) \<le> of_int raw" "(of_int raw :: rat) \<le> 2047"
    using assms False by simp_all
  then have q: "1 / 8 \<le> q" "q < 512" "0 \<le> q"
    by (simp_all add: q_def)
  have "(2 :: rat) powi (- 1022) \<le> 2 powi (- 3)"
    by (rule powi_mono) simp
  also have "(2 :: rat) powi (- 3) = 1 / 8"
    using power_int_minus [of "2 :: rat" 3] by (simp add: inverse_eq_divide)
  finally have lo: "2 powi (- 1022) \<le> \<bar>q\<bar>"
    using q by simp
  have "(2 :: rat) powi 9 \<le> 2 powi 1023"
    by (rule powi_mono) simp
  then have hi: "\<bar>q\<bar> < 2 powi 1023"
    using q by simp
  obtain r where r: "round_double q = Finite r" "\<bar>r - q\<bar> \<le> \<bar>q\<bar> / 2 ^ 53"
    using round_double_err [OF lo hi] by blast
  have ex: "r = q" if d7: "7 dvd raw"
  proof -
    obtain n where n: "raw = 7 * n"
      using d7 unfolding dvd_def by blast
    have "q = of_int n / 2 ^ 0"
      by (simp add: q_def n)
    moreover have "\<bar>n\<bar> < 2 ^ 53"
      using assms n by simp
    ultimately have "round_double q = Finite q"
      by (rule round_double_exact) simp
    then show ?thesis
      using r(1) by simp
  qed
  have "int_truediv raw 7 = Inr (Finite r)"
    using r(1) by (simp add: int_truediv_def q_def)
  then show ?thesis
    using r(2) ex q(3) by (simp add: q_def)
qed

lemma get_strength_live:
  assumes "live s" and "length (read_char ev PWM_AB2_UUID) = 3"
    and "unpack_real_strength (read_char ev PWM_AB2_UUID) = (a, b)"
  shows "\<exists>ra rb. get_strength ev s
             = (Inr (Finite ra, Finite rb), s\<lparr>calls := calls s @ [Read PWM_AB2_UUID]\<rparr>)
           \<and> \<bar>ra - of_int a / 7\<bar> \<le> of_int a / 7 / 2 ^ 53
           \<and> \<bar>rb - of_int b / 7\<bar> \<le> of_int b / 7 / 2 ^ 53
           \<and> (7 dvd a \<longrightarrow> ra = of_int a / 7) \<and> (7 dvd b \<longrightarrow> rb = of_int b / 7)"
proof -
  have ab: "0 \<le> a" "a \<le> 2047" "0 \<le> b" "b \<le> 2047"
    using unpack_real_strength_range [OF assms(2)] assms(3) by simp_all
  obtain ra where ra: "int_truediv a 7 = Inr (Finite ra)"
      "\<bar>ra - of_int a / 7\<bar> \<le> of_int a / 7 / 2 ^ 53" "7 dvd a \<longrightarrow> ra = of_int a / 7"
    using int_truediv_7 [OF ab(1,2)] by blast
  obtain rb where rb: "int_truediv b 7 = Inr (Finite rb)"
      "\<bar>rb - of_int b / 7\<bar> \<le> of_int b / 7 / 2 ^ 53" "7 dvd b \<longrightarrow> rb = of_int b / 7"
    using int_truediv_7 [OF ab(3,4)] by blast
  have "get_strength ev s
      = (Inr (Finite ra, Finite rb), s\<lparr>calls := calls s @ [Read PWM_AB2_UUID]\<rparr>)"
    using assms(1,3) ra(1) rb(1)
    by (simp add: get_strength_def bind_def [of "get_real_strength ev"] get_real_strength_eq
        ret_def)
  then show ?thesis
    using ra(2,3) rb(2,3) by blast
qed

lemma write_strength_dyadic:
  assumes "\<bar>7 * Ma\<bar> < 2 ^ 53" and "ja \<le> 1074" and "\<bar>7 * Mb\<bar> < 2 ^ 53" and "jb \<le> 1074"
  shows "write_strength (Finite (of_int Ma / 2 ^ ja)) (Finite (of_int Mb / 2 ^ jb)) s
           = write_real_strength (toward_zero (of_int Ma / 2 ^ ja * 7))
               (toward_zero (of_int Mb / 2 ^ jb * 7)) s"
  using float_mul_7_exact [OF assms(1,2)] float_mul_7_exact [OF assms(3,4)]
  by (rule write_strength_finite)

lemma toward_zero_dyadic_samples:
  "toward_zero (of_int (- 1) / 2 ^ 3 * 7) = 0" "toward_zero (of_int 1 / 2 ^ 1 * 7) = 3"
  by (simp_all add: toward_zero_def) linarith+

lemma float_mul_eighth: "float_mul (Finite (- (1 / 8))) (Finite 7) = Finite (- (7 / 8))"
  by code_simp

lemma float_mul_half: "float_mul (Finite (1 / 2)) (Finite 7) = Finite (7 / 2)"
  by code_simp

lemma toward_zero_samples: "toward_zero (- (7 / 8)) = 0" "toward_zero (7 / 2) = 3"
  by (simp_all add: toward_zero_def) linarith+

lemma normal_range_sample:
  "2 powi (- 1022) \<le> \<bar>(1 / 2 :: rat) * 7\<bar> \<and> \<bar>(1 / 2 :: rat) * 7\<bar> < 2 powi 1023"
proof -
  have "(2 :: rat) powi (- 1022) \<le> 2 powi 1"
    by (rule powi_mono) simp
  moreover have "(2 :: rat) powi 2 \<le> 2 powi 1023"
    by (rule powi_mono) simp
  ultimately show ?thesis
    by simp
qed

subsection \<open>The packed layouts\<close>

text \<open>
  Claim C1 (encode then decode is the identity for both packed layouts). The
  intensity-pair half holds (\<open>pack_real_strength_ok\<close> above). The wave half does not:
  \<open>__write_wave\<close> places \<open>x\<close> at bits 17 to 21 and \<open>y\<close> at bits 7 to 16, while
  \<open>__read_wave\<close> reads \<open>x\<close> from bit 19 upwards and \<open>y\<close> from bits 9 to 18. Writing the
  wave \<open>(1, 0, 0)\<close> on a live session sends the three bytes \<open>00 00 02\<close>, and reading a
  characteristic that holds these bytes returns \<open>(0, 256, 0)\<close>.
\<close>

theorem wave_roundtrip_fails:
  "fst (write_wave_a 1 0 0 linked) = Inr ()
   \<and> calls (snd (write_wave_a 1 0 0 linked)) = calls linked @ [Write PWM_B34_UUID [0, 0, 2]]
   \<and> fst (read_wave_a (peer [0, 0, 2]) linked) = Inr (0, 256, 0)"
  by (simp add: write_wave_a_def read_wave_a_def write_wave_eq read_wave_eq live_linked
      pack_wave_1_0_0 unpack_wave_0_0_2 peer_def)

text \<open>
  Claim C10 (decoded fields lie in their bit ranges). On a live session, when the
  characteristic returns exactly three bytes, \<open>_get_real_strength\<close> returns a pair with
  both components in 0..2047 and \<open>__read_wave\<close> returns a triple with \<open>x\<close> in 0..31,
  \<open>y\<close> in 0..1023 and \<open>z\<close> in 0..31; neither raises.
\<close>

theorem decoded_fields_in_range:
  assumes "live s"
    and "length (read_char ev PWM_AB2_UUID) = 3"
    and "length (read_char ev uuid) = 3"
  shows "(\<exists>a b s'. get_real_strength ev s = (Inr (a, b), s')
            \<and> 0 \<le> a \<and> a \<le> 2047 \<and> 0 \<le> b \<and> b \<le> 2047)
       \<and> (\<exists>x y z s'. read_wave ev uuid s = (Inr (x, y, z), s')
            \<and> 0 \<le> x \<and> x \<le> 31 \<and> 0 \<le> y \<and> y \<le> 1023 \<and> 0 \<le> z \<and> z \<le> 31)"
  using unpack_real_strength_range [OF assms(2)] unpack_wave_range [OF assms(3)] assms(1)
  by (simp add: get_real_strength_eq read_wave_eq)

theorem decoded_fields_in_range_witness:
  "live linked
   \<and> length (read_char (peer [255, 255, 255]) PWM_AB2_UUID) = 3
   \<and> length (read_char (peer [255, 255, 255]) PWM_A34_UUID) = 3
   \<and> (\<exists>a b s'. get_real_strength (peer [255, 255, 255]) linked = (Inr (a, b), s')
            \<and> 0 \<le> a \<and> a \<le> 2047 \<and> 0 \<le> b \<and> b \<le> 2047)
   \<and> (\<exists>x y z s'. read_wave (peer [255, 255, 255]) PWM_A34_UUID linked = (Inr (x, y, z), s')
            \<and> 0 \<le> x \<and> x \<le> 31 \<and> 0 \<le> y \<and> y \<le> 1023 \<and> 0 \<le> z \<and> z \<le> 31)"
proof -
  have l: "live linked"
    by (rule live_linked)
  have n: "length (read_char (peer [255, 255, 255]) u) = 3" for u
    by (simp add: peer_def)
  show ?thesis
    using decoded_fields_in_range [OF l n n, of PWM_A34_UUID] l n by simp
qed

text \<open>
  Claim C3 (decode operations validate the payload length), as the claim states it,
  fails for the intensity pair: a payload of four bytes is decoded, and the first
  component leaves the 11-bit range.
\<close>

theorem intensity_decode_accepts_any_length:
  "length [0, 0, 0, 1 :: byte] \<noteq> 3
   \<and> fst (get_real_strength (peer [0, 0, 0, 1]) linked) = Inr (2048, 0)"
  by (simp add: get_real_strength_eq live_linked peer_def unpack_real_strength_eq)

text \<open>
  Claim C3, amended. On a live session the battery read raises when the payload is
  empty (Python's \<open>IndexError\<close>; the module has no exception of its own for a malformed
  payload). The intensity-pair read does not look at the length: for every payload it
  returns \<open>(v >> 13, (v >> 2) & 2047)\<close> of the little-endian value \<open>v\<close> of the payload.
\<close>

theorem payload_length_handling:
  assumes "live s"
  shows "(read_char ev BATTERY_LEVEL_UUID = [] \<longrightarrow>
            fst (get_battery_level ev s) = Inl IndexError)
       \<and> fst (get_real_strength ev s) =
            Inr (drop_bit 13 (from_bytes_little (read_char ev PWM_AB2_UUID)),
                 drop_bit 2 (from_bytes_little (read_char ev PWM_AB2_UUID)) AND 2047)"
  using assms
  by (simp add: get_battery_level_eq get_real_strength_eq unpack_real_strength_def Let_def)

theorem payload_length_handling_witness:
  "live linked \<and> read_char (peer []) BATTERY_LEVEL_UUID = []
   \<and> fst (get_battery_level (peer []) linked) = Inl IndexError
   \<and> fst (get_real_strength (peer []) linked) = Inr (0, 0)"
proof -
  have e: "read_char (peer []) u = []" for u
    by (simp add: peer_def)
  show ?thesis
    using payload_length_handling [OF live_linked, of "peer []"] live_linked
    by (simp add: e)
qed

text \<open>
  Claim C4 (out-of-range fields are rejected). \<open>_write_real_strength\<close> raises
  \<open>AssertionError\<close>, the module's form of an invalid parameter, for any \<open>a\<close> or \<open>b\<close>
  outside 0..2047, and both wave writes raise it for any \<open>x\<close> or \<open>z\<close> outside 0..31 or \<open>y\<close>
  outside 0..1023; the session, and with it the log of transport calls, is unchanged,
  whether or not the session is live.
\<close>

theorem out_of_range_rejected:
  "(\<not> (0 \<le> a \<and> a \<le> 2047 \<and> 0 \<le> b \<and> b \<le> 2047) \<longrightarrow>
      write_real_strength a b s = (Inl AssertionError, s))
   \<and> (\<not> (0 \<le> x \<and> x \<le> 31 \<and> 0 \<le> y \<and> y \<le> 1023 \<and> 0 \<le> z \<and> z \<le> 31) \<longrightarrow>
      write_wave_a x y z s = (Inl AssertionError, s)
      \<and> write_wave_b x y z s = (Inl AssertionError, s))"
  by (simp add: write_real_strength_eq write_wave_a_def write_wave_b_def write_wave_eq)

theorem out_of_range_rejected_witness:
  "\<not> (0 \<le> (2048 :: int) \<and> (2048 :: int) \<le> 2047 \<and> 0 \<le> (- 1 :: int) \<and> (- 1 :: int) \<le> 2047)
   \<and> write_real_strength 2048 (- 1) linked = (Inl AssertionError, linked)
   \<and> \<not> (0 \<le> (0 :: int) \<and> (0 :: int) \<le> 31 \<and> 0 \<le> (1024 :: int) \<and> (1024 :: int) \<le> 1023
         \<and> 0 \<le> (0 :: int) \<and> (0 :: int) \<le> 31)
   \<and> write_wave_a 0 1024 0 linked = (Inl AssertionError, linked)
   \<and> write_wave_b 0 1024 0 linked = (Inl AssertionError, linked)"
  using out_of_range_rejected [of 2048 "- 1" linked 0 1024 0]
  by simp

text \<open>
  Claim C8 (the conversions between float and raw intensity: \<open>raw / 7\<close> one way,
  \<open>v * 7\<close> truncated towards zero the other way, no rounding to nearest).

  \<open>write_strength\<close>: whenever the float products \<open>strength_a * 7\<close> and
  \<open>strength_b * 7\<close> are finite, the raw values passed to \<open>_write_real_strength\<close> are
  these products truncated towards zero. For floats \<open>M / 2 ^ j\<close> with \<open>|7 * M| < 2 ^ 53\<close>
  and \<open>j \<le> 1074\<close> the product is exact, so the raw values are \<open>v * 7\<close> truncated towards
  zero; for every float whose product with 7 lies in the normal range, the float
  product differs from \<open>v * 7\<close> by at most \<open>|v * 7| / 2 ^ 53\<close>.

  \<open>get_strength\<close>: on a live session and a payload of three bytes that decodes to the
  raw pair \<open>(a, b)\<close>, the result is a pair of finite floats within \<open>(a / 7) / 2 ^ 53\<close> of
  \<open>a / 7\<close> and within \<open>(b / 7) / 2 ^ 53\<close> of \<open>b / 7\<close>, and equal to the quotient
  whenever 7 divides the raw value.

  The sample points: 1.0 gives the raw value 7, 0.5 gives 3 (3.5 cut to 3, not rounded
  to 4), and the raw value 7 gives 1.0. For every finite float \<open>int()\<close> returns the
  integer \<open>t\<close> of the same sign with \<open>|t| \<le> |x| < |t| + 1\<close>.
\<close>

theorem strength_conversions:
  "(float_mul fa (Finite 7) = Finite pa \<and> float_mul fb (Finite 7) = Finite pb \<longrightarrow>
      write_strength fa fb s = write_real_strength (toward_zero pa) (toward_zero pb) s)
   \<and> (\<bar>7 * Ma\<bar> < 2 ^ 53 \<and> ja \<le> 1074 \<and> \<bar>7 * Mb\<bar> < 2 ^ 53 \<and> jb \<le> 1074 \<longrightarrow>
      write_strength (Finite (of_int Ma / 2 ^ ja)) (Finite (of_int Mb / 2 ^ jb)) s
        = write_real_strength (toward_zero (of_int Ma / 2 ^ ja * 7))
            (toward_zero (of_int Mb / 2 ^ jb * 7)) s)
   \<and> (2 powi (- 1022) \<le> \<bar>q * 7\<bar> \<and> \<bar>q * 7\<bar> < 2 powi 1023 \<longrightarrow>
      (\<exists>p. float_mul (Finite q) (Finite 7) = Finite p \<and> \<bar>p - q * 7\<bar> \<le> \<bar>q * 7\<bar> / 2 ^ 53))
   \<and> (live s \<and> length (read_char ev PWM_AB2_UUID) = 3
        \<and> unpack_real_strength (read_char ev PWM_AB2_UUID) = (a, b) \<longrightarrow>
      (\<exists>ra rb. get_strength ev s
             = (Inr (Finite ra, Finite rb), s\<lparr>calls := calls s @ [Read PWM_AB2_UUID]\<rparr>)
           \<and> \<bar>ra - of_int a / 7\<bar> \<le> of_int a / 7 / 2 ^ 53
           \<and> \<bar>rb - of_int b / 7\<bar> \<le> of_int b / 7 / 2 ^ 53
           \<and> (7 dvd a \<longrightarrow> ra = of_int a / 7) \<and> (7 dvd b \<longrightarrow> rb = of_int b / 7)))
   \<and> py_int (float_mul (Finite 1) (Finite 7)) = Inr 7
   \<and> py_int (float_mul (Finite (1 / 2)) (Finite 7)) = Inr 3
   \<and> int_truediv 7 7 = Inr (Finite 1)
   \<and> write_strength (Finite 1) (Finite (1 / 2)) s = write_real_strength 7 3 s
   \<and> fst (get_strength (peer [28, 224, 0]) linked) = Inr (Finite 1, Finite 1)
   \<and> (\<forall>x. \<exists>t. py_int (Finite x) = Inr t
          \<and> \<bar>of_int t\<bar> \<le> \<bar>x\<bar> \<and> \<bar>x\<bar> < \<bar>of_int t\<bar> + 1 \<and> 0 \<le> of_int t * x)"
  using write_strength_finite [of fa pa fb pb s] write_strength_dyadic [of Ma ja Mb jb s]
    float_mul_7_err [of q] get_strength_live [of s ev a b]
    float_to_raw_1 float_to_raw_half raw_to_float_7 write_strength_1_half [of s]
    get_strength_7_7 py_int_truncates
  by blast

theorem strength_conversions_witness:
  "float_mul (Finite (- (1 / 8))) (Finite 7) = Finite (- (7 / 8))
   \<and> float_mul (Finite (1 / 2)) (Finite 7) = Finite (7 / 2)
   \<and> write_strength (Finite (- (1 / 8))) (Finite (1 / 2)) linked = write_real_strength 0 3 linked
   \<and> \<bar>7 * (- 1 :: int)\<bar> < 2 ^ 53 \<and> (3 :: nat) \<le> 1074
   \<and> \<bar>7 * (1 :: int)\<bar> < 2 ^ 53 \<and> (1 :: nat) \<le> 1074
   \<and> write_strength (Finite (of_int (- 1) / 2 ^ 3)) (Finite (of_int 1 / 2 ^ 1)) linked
       = write_real_strength (toward_zero (of_int (- 1) / 2 ^ 3 * 7))
           (toward_zero (of_int 1 / 2 ^ 1 * 7)) linked
   \<and> toward_zero (of_int (- 1) / 2 ^ 3 * 7) = 0 \<and> toward_zero (of_int 1 / 2 ^ 1 * 7) = 3
   \<and> 2 powi (- 1022) \<le> \<bar>(1 / 2 :: rat) * 7\<bar> \<and> \<bar>(1 / 2 :: rat) * 7\<bar> < 2 powi 1023
   \<and> (\<exists>p. float_mul (Finite (1 / 2)) (Finite 7) = Finite p
          \<and> \<bar>p - 1 / 2 * 7\<bar> \<le> \<bar>(1 / 2 :: rat) * 7\<bar> / 2 ^ 53)
   \<and> live linked \<and> length (read_char (peer [28, 224, 0]) PWM_AB2_UUID) = 3
   \<and> unpack_real_strength (read_char (peer [28, 224, 0]) PWM_AB2_UUID) = (7, 7)
   \<and> get_strength (peer [28, 224, 0]) linked
       = (Inr (Finite 1, Finite 1), linked\<lparr>calls := calls linked @ [Read PWM_AB2_UUID]\<rparr>)"
proof -
  note t = strength_conversions [where fa = "Finite (- (1 / 8))" and fb = "Finite (1 / 2)"
      and pa = "- (7 / 8)" and pb = "7 / 2" and s = linked and Ma = "- 1" and ja = 3 and Mb = 1 and jb = 1
      and q = "1 / 2" and ev = "peer [28, 224, 0]" and a = 7 and b = 7]
  have h2: "\<bar>7 * (- 1 :: int)\<bar> < 2 ^ 53 \<and> (3 :: nat) \<le> 1074
      \<and> \<bar>7 * (1 :: int)\<bar> < 2 ^ 53 \<and> (1 :: nat) \<le> 1074"
    by simp
  have h4: "live linked \<and> length (read_char (peer [28, 224, 0]) PWM_AB2_UUID) = 3
      \<and> unpack_real_strength (read_char (peer [28, 224, 0]) PWM_AB2_UUID) = (7, 7)"
    by (simp add: live_linked peer_def unpack_28_224_0)
  have c1: "write_strength (Finite (- (1 / 8))) (Finite (1 / 2)) linked
      = write_real_strength (toward_zero (- (7 / 8))) (toward_zero (7 / 2)) linked"
    using t float_mul_eighth float_mul_half by blast
  have c2: "write_strength (Finite (of_int (- 1) / 2 ^ 3)) (Finite (of_int 1 / 2 ^ 1)) linked
      = write_real_strength (toward_zero (of_int (- 1) / 2 ^ 3 * 7))
          (toward_zero (of_int 1 / 2 ^ 1 * 7)) linked"
    using t h2 by blast
  have c3: "\<exists>p. float_mul (Finite (1 / 2)) (Finite 7) = Finite p
      \<and> \<bar>p - 1 / 2 * 7\<bar> \<le> \<bar>(1 / 2 :: rat) * 7\<bar> / 2 ^ 53"
    using t normal_range_sample by blast
  have "\<exists>ra rb. get_strength (peer [28, 224, 0]) linked
        = (Inr (Finite ra, Finite rb), linked\<lparr>calls := calls linked @ [Read PWM_AB2_UUID]\<rparr>)
      \<and> (7 dvd (7 :: int) \<longrightarrow> ra = of_int 7 / 7) \<and> (7 dvd (7 :: int) \<longrightarrow> rb = of_int 7 / 7)"
    using t h4 by blast
  then have c4: "get_strength (peer [28, 224, 0]) linked
      = (Inr (Finite 1, Finite 1), linked\<lparr>calls := calls linked @ [Read PWM_AB2_UUID]\<rparr>)"
    by auto
  show ?thesis
    using float_mul_eighth float_mul_half c1 h2 c2 toward_zero_dyadic_samples
      normal_range_sample c3 h4 c4
    unfolding toward_zero_samples
    by blast
qed

text \<open>
  Claim C9 (wave A uses the characteristic ending in 1506, wave B the one ending in
  1505). On a live session \<open>read_wave_a\<close> makes exactly one transport call, a read of
  \<open>955A1506-0FE2-F5AA-A094-84B8D4F3E8AD\<close>, and \<open>write_wave_a\<close> with fields in range
  makes exactly one, a write to the same characteristic; \<open>read_wave_b\<close> and
  \<open>write_wave_b\<close> do the same on \<open>955A1505-0FE2-F5AA-A094-84B8D4F3E8AD\<close>.
\<close>

theorem wave_channel_characteristics:
  assumes "live s"
    and "0 \<le> x \<and> x \<le> 31 \<and> 0 \<le> y \<and> y \<le> 1023 \<and> 0 \<le> z \<and> z \<le> 31"
  shows "calls (snd (read_wave_a ev s))
           = calls s @ [Read ''955A1506-0FE2-F5AA-A094-84B8D4F3E8AD'']
       \<and> (\<exists>data. calls (snd (write_wave_a x y z s))
             = calls s @ [Write ''955A1506-0FE2-F5AA-A094-84B8D4F3E8AD'' data])
       \<and> calls (snd (read_wave_b ev s))
           = calls s @ [Read ''955A1505-0FE2-F5AA-A094-84B8D4F3E8AD'']
       \<and> (\<exists>data. calls (snd (write_wave_b x y z s))
             = calls s @ [Write ''955A1505-0FE2-F5AA-A094-84B8D4F3E8AD'' data])"
proof -
  obtain data where d: "pack_wave x y z = Inr data"
    using pack_wave_ok assms(2) by blast
  show ?thesis
    using assms d
    by (simp add: read_wave_a_def read_wave_b_def write_wave_a_def write_wave_b_def
        read_wave_eq write_wave_eq PWM_A34_UUID_def PWM_B34_UUID_def)
qed

theorem wave_channel_characteristics_witness:
  "live linked
   \<and> (0 :: int) \<le> 1 \<and> (1 :: int) \<le> 31 \<and> (0 :: int) \<le> 9 \<and> (9 :: int) \<le> 1023
   \<and> (0 :: int) \<le> 20 \<and> (20 :: int) \<le> 31
   \<and> calls (snd (read_wave_a (peer [0, 0, 0]) linked))
       = calls linked @ [Read ''955A1506-0FE2-F5AA-A094-84B8D4F3E8AD'']
   \<and> (\<exists>data. calls (snd (write_wave_a 1 9 20 linked))
         = calls linked @ [Write ''955A1506-0FE2-F5AA-A094-84B8D4F3E8AD'' data])
   \<and> calls (snd (read_wave_b (peer [0, 0, 0]) linked))
       = calls linked @ [Read ''955A1505-0FE2-F5AA-A094-84B8D4F3E8AD'']
   \<and> (\<exists>data. calls (snd (write_wave_b 1 9 20 linked))
         = calls linked @ [Write ''955A1505-0FE2-F5AA-A094-84B8D4F3E8AD'' data])"
  using live_linked wave_channel_characteristics [OF live_linked, of 1 9 20 "peer [0, 0, 0]"]
  by simp

subsection \<open>The session\<close>

text \<open>
  Claim C2 (entering the scope without an address runs discovery and fails with
  \<open>DeviceNotFoundError\<close> when nothing is found). The code does not do this: whatever the
  environment, \<open>__aenter__\<close> on \<open>Coyote2()\<close> raises \<open>AssertionError\<close> from \<open>connect\<close>,
  the session is unchanged, and no scan is logged, also where an awaited
  \<open>find_device\<close> would have returned \<open>False\<close>.
\<close>

theorem aenter_without_address:
  "aenter ev (init None) = (Inl AssertionError, init None)
   \<and> fst (find_device (peer []) (init None)) = Inr False"
  by (simp add: aenter_def connect_def init_def throw_def find_device_def peer_def bind_def
      log_call_def ret_def)

text \<open>
  Claim C6 (the two error transitions of \<open>connect\<close>). With an address set, \<open>connect\<close>
  on a live session raises \<open>AlreadyConnectedError\<close> and leaves the session as it was,
  hence live. On a session that is not live, when the transport connect succeeds and
  the lower-case primary service identifier is not among the peer's services,
  \<open>connect\<close> raises \<open>DeviceIsNotCoyote20Error\<close>, the transport calls made are the connect
  followed by a disconnect, and the session is left not live.
\<close>

theorem connect_error_transitions:
  "(address s \<noteq> None \<and> live s \<longrightarrow>
      connect ev s = (Inl AlreadyConnectedError, s))
   \<and> (address s \<noteq> None \<and> \<not> live s \<and> connect_ok ev
        \<and> lower SERVICE_A_UUID \<notin> set (peer_services ev) \<longrightarrow>
      (\<exists>s'. connect ev s = (Inl DeviceIsNotCoyote20Error, s') \<and> \<not> live s'
            \<and> calls s' = calls s @ [Connect, Disconnect]))"
  using connect_live connect_rejects by blast

theorem connect_error_transitions_witness:
  "address linked \<noteq> None \<and> live linked
   \<and> connect (peer []) linked = (Inl AlreadyConnectedError, linked)
   \<and> address (init (Some ''C1:A2:B3:D4:E5:F6'')) \<noteq> None
   \<and> \<not> live (init (Some ''C1:A2:B3:D4:E5:F6''))
   \<and> connect_ok stranger
   \<and> lower SERVICE_A_UUID \<notin> set (peer_services stranger)
   \<and> (\<exists>s'. connect stranger (init (Some ''C1:A2:B3:D4:E5:F6''))
               = (Inl DeviceIsNotCoyote20Error, s')
            \<and> \<not> live s'
            \<and> calls s' = calls (init (Some ''C1:A2:B3:D4:E5:F6'')) @ [Connect, Disconnect])"
proof -
  have a: "address linked \<noteq> None \<and> live linked"
    by (simp add: linked_def live_def)
  have b: "address (init (Some ''C1:A2:B3:D4:E5:F6'')) \<noteq> None
      \<and> \<not> live (init (Some ''C1:A2:B3:D4:E5:F6''))
      \<and> connect_ok stranger
      \<and> lower SERVICE_A_UUID \<notin> set (peer_services stranger)"
    by (simp add: init_def live_def stranger_def lower_service)
  show ?thesis
    using a b connect_error_transitions [of linked "peer []"]
      connect_error_transitions [of "init (Some ''C1:A2:B3:D4:E5:F6'')" stranger]
    by blast
qed

text \<open>
  Claim C7 (leaving the scope disconnects exactly once, and an error of the body still
  propagates). When \<open>__aenter__\<close> has returned and the body ends with the result \<open>r\<close>,
  an exception or a value, the \<open>async with\<close> statement ends with the same \<open>r\<close>; the
  transport calls made after the body are exactly one disconnect, and the session is
  left not live.
\<close>

theorem exit_disconnects_once:
  assumes "aenter ev s = (Inr (), s1)" and "body s1 = (r, s2)"
  shows "\<exists>s3. async_with ev body s = (r, s3) \<and> calls s3 = calls s2 @ [Disconnect]
           \<and> \<not> live s3"
proof -
  obtain s3 where x: "aexit s2 = (Inr False, s3)" "\<not> live s3"
      "calls s3 = calls s2 @ [Disconnect]"
    using aexit_props by blast
  show ?thesis
  proof (cases r)
    case (Inl e)
    then show ?thesis
      using assms x by (simp add: async_with_def bind_def throw_def)
  next
    case (Inr u)
    then show ?thesis
      using assms x by (simp add: async_with_def bind_def ret_def)
  qed
qed

theorem exit_disconnects_once_witness:
  "aenter (peer []) (init (Some ''C1:A2:B3:D4:E5:F6'')) = (Inr (), linked)
   \<and> write_wave_a 32 0 0 linked = (Inl AssertionError, linked)
   \<and> (\<exists>s3. async_with (peer []) (write_wave_a 32 0 0) (init (Some ''C1:A2:B3:D4:E5:F6''))
               = (Inl AssertionError, s3)
            \<and> calls s3 = calls linked @ [Disconnect] \<and> \<not> live s3)"
  using exit_disconnects_once [of "peer []" "init (Some ''C1:A2:B3:D4:E5:F6'')" linked
      "write_wave_a 32 0 0" "Inl AssertionError" linked]
    aenter_linked write_wave_a_32 [of linked]
  by simp

text \<open>
  Claim C5 (every operation on a session that is not live raises \<open>NotConnectedError\<close>
  and touches no characteristic), as the claim states it, fails for a write with a
  field out of range: the assertion on the fields comes before the connection check.
\<close>

theorem write_checks_range_first:
  "\<not> live (init (Some ''C1:A2:B3:D4:E5:F6''))
   \<and> fst (write_real_strength 2048 0 (init (Some ''C1:A2:B3:D4:E5:F6''))) = Inl AssertionError"
  by (simp add: write_real_strength_eq live_def init_def)

text \<open>
  Claim C5, amended. On a session that is not live, every read (\<open>get_battery_level\<close>,
  \<open>_get_real_strength\<close>, \<open>get_strength\<close>, \<open>read_wave_a\<close>, \<open>read_wave_b\<close>) and every write
  whose fields are in range (\<open>_write_real_strength\<close>, \<open>write_strength\<close> with floats that
  convert to raw values in range, \<open>write_wave_a\<close>, \<open>write_wave_b\<close>) raises
  \<open>NotConnectedError\<close>, and the log of transport calls is unchanged.
\<close>

theorem not_connected_refused:
  assumes "\<not> live s"
  shows "refused (get_battery_level ev) s
       \<and> refused (get_real_strength ev) s
       \<and> refused (get_strength ev) s
       \<and> refused (read_wave_a ev) s
       \<and> refused (read_wave_b ev) s
       \<and> (0 \<le> a \<and> a \<le> 2047 \<and> 0 \<le> b \<and> b \<le> 2047 \<longrightarrow>
            refused (write_real_strength a b) s)
       \<and> (py_int (float_mul fa (Finite 7)) = Inr a \<and> py_int (float_mul fb (Finite 7)) = Inr b
            \<and> 0 \<le> a \<and> a \<le> 2047 \<and> 0 \<le> b \<and> b \<le> 2047 \<longrightarrow>
            refused (write_strength fa fb) s)
       \<and> (0 \<le> x \<and> x \<le> 31 \<and> 0 \<le> y \<and> y \<le> 1023 \<and> 0 \<le> z \<and> z \<le> 31 \<longrightarrow>
            refused (write_wave_a x y z) s \<and> refused (write_wave_b x y z) s)"
proof -
  have "refused (read_wave_a ev) s" "refused (read_wave_b ev) s"
    using refused_read(3) [OF assms] by (simp_all add: read_wave_a_def read_wave_b_def)
  moreover have "refused (write_wave_a x y z) s \<and> refused (write_wave_b x y z) s"
    if "0 \<le> x \<and> x \<le> 31 \<and> 0 \<le> y \<and> y \<le> 1023 \<and> 0 \<le> z \<and> z \<le> 31"
    using refused_write(2) [OF assms that] by (simp add: write_wave_a_def write_wave_b_def)
  ultimately show ?thesis
    using refused_read(1,2) [OF assms] refused_get_strength [OF assms]
      refused_write(1) [OF assms] refused_write_strength [OF assms]
    by blast
qed

theorem not_connected_refused_witness:
  "\<not> live (init (Some ''C1:A2:B3:D4:E5:F6''))
   \<and> refused (get_battery_level (peer [])) (init (Some ''C1:A2:B3:D4:E5:F6''))
   \<and> refused (get_real_strength (peer [])) (init (Some ''C1:A2:B3:D4:E5:F6''))
   \<and> refused (get_strength (peer [])) (init (Some ''C1:A2:B3:D4:E5:F6''))
   \<and> refused (read_wave_a (peer [])) (init (Some ''C1:A2:B3:D4:E5:F6''))
   \<and> refused (read_wave_b (peer [])) (init (Some ''C1:A2:B3:D4:E5:F6''))
   \<and> (0 :: int) \<le> 7 \<and> (7 :: int) \<le> 2047 \<and> (0 :: int) \<le> 3 \<and> (3 :: int) \<le> 2047
   \<and> refused (write_real_strength 7 3) (init (Some ''C1:A2:B3:D4:E5:F6''))
   \<and> py_int (float_mul (Finite 1) (Finite 7)) = Inr 7
   \<and> py_int (float_mul (Finite (1 / 2)) (Finite 7)) = Inr 3
   \<and> refused (write_strength (Finite 1) (Finite (1 / 2))) (init (Some ''C1:A2:B3:D4:E5:F6''))
   \<and> (0 :: int) \<le> 1 \<and> (1 :: int) \<le> 31 \<and> (0 :: int) \<le> 9 \<and> (9 :: int) \<le> 1023
   \<and> (0 :: int) \<le> 20 \<and> (20 :: int) \<le> 31
   \<and> refused (write_wave_a 1 9 20) (init (Some ''C1:A2:B3:D4:E5:F6''))
   \<and> refused (write_wave_b 1 9 20) (init (Some ''C1:A2:B3:D4:E5:F6''))"
proof -
  have n: "\<not> live (init (Some ''C1:A2:B3:D4:E5:F6''))"
    by (simp add: live_def init_def)
  have r: "(0 :: int) \<le> 7 \<and> (7 :: int) \<le> 2047 \<and> (0 :: int) \<le> 3 \<and> (3 :: int) \<le> 2047"
    "(0 :: int) \<le> 1 \<and> (1 :: int) \<le> 31 \<and> (0 :: int) \<le> 9 \<and> (9 :: int) \<le> 1023
      \<and> (0 :: int) \<le> 20 \<and> (20 :: int) \<le> 31"
    by simp_all
  show ?thesis
    using n r float_to_raw_1 float_to_raw_half
      not_connected_refused [OF n, of "peer []" 7 3 "Finite 1" "Finite (1 / 2)" 1 9 20]
    by blast
qed

end
